theory Spec2Isabelle
  imports Complex_Main
begin

section \<open>The visualization helpers of \<^verbatim>\<open>chapter1/poisson.ipynb\<close>\<close>

text \<open>
  The notebook's own functions are in its last cell: \<^verbatim>\<open>refine_array_1d\<close> and
  \<^verbatim>\<open>plot_solutions\<close>. Everything else is a sequence of calls into SymPDE, PsyDAC,
  NumPy and Matplotlib.

  Coordinates and field values are NumPy \<^verbatim>\<open>float64\<close> numbers in the notebook. They are
  modelled as \<^typ>\<open>real\<close>: the arithmetic below is exact, rounding is not part of the
  model. Every exception the Python can raise on the modelled path is a value of
  \<open>error\<close>.
\<close>

datatype error = ValueError | IndexError | NameError

subsection \<open>NumPy operations used by the helpers\<close>

text \<open>
  \<^verbatim>\<open>np.linspace(start, stop, num)\<close> with the default \<^verbatim>\<open>endpoint=True\<close>: a negative
  \<^verbatim>\<open>num\<close> raises \<^verbatim>\<open>ValueError\<close>; otherwise \<^verbatim>\<open>num\<close> samples
  \<^verbatim>\<open>start + i * step\<close> with \<^verbatim>\<open>step = (stop - start) / (num - 1)\<close>, the last of them
  set to \<^verbatim>\<open>stop\<close> when \<^verbatim>\<open>num > 1\<close>; a single sample is \<^verbatim>\<open>start\<close>.
\<close>

definition linspace :: "real \<Rightarrow> real \<Rightarrow> int \<Rightarrow> error + real list" where
  "linspace start stop num =
     (if num < 0 then Inl ValueError
      else if num \<le> 1 then Inr (map (\<lambda>i. start) [0 ..< nat num])
      else
        (let step = (stop - start) / real_of_int (num - 1);
             y = map (\<lambda>i. start + real i * step) [0 ..< nat num]
         in Inr (y[nat num - 1 := stop])))"

text \<open>
  \<^verbatim>\<open>np.concatenate\<close> of a Python list of one-dimensional arrays; the empty list raises
  \<^verbatim>\<open>ValueError\<close> (``need at least one array to concatenate'').
\<close>

definition concatenate :: "real list list \<Rightarrow> error + real list" where
  "concatenate arrays = (if arrays = [] then Inl ValueError else Inr (concat arrays))"

text \<open>
  Subscription \<^verbatim>\<open>seq[i]\<close> of a Python sequence of length \<open>n\<close>: the positions
  \<open>0 .. n-1\<close> are read directly, \<open>-n .. -1\<close> count back from the end, and every
  other index raises \<^verbatim>\<open>IndexError\<close>.
\<close>

definition getitem :: "'a list \<Rightarrow> int \<Rightarrow> error + 'a" where
  "getitem seq i =
     (if 0 \<le> i \<and> i < int (length seq) then Inr (seq ! nat i)
      else if - int (length seq) \<le> i \<and> i < 0 then Inr (seq ! nat (int (length seq) + i))
      else Inl IndexError)"

text \<open>
  A list comprehension whose element expression can raise: the elements are evaluated
  from left to right and the first exception leaves the comprehension.
\<close>

fun comprehension :: "(error + 'a) list \<Rightarrow> error + 'a list" where
  "comprehension [] = Inr []"
| "comprehension (Inl e # rs) = Inl e"
| "comprehension (Inr v # rs) =
     (case comprehension rs of Inl e \<Rightarrow> Inl e | Inr vs \<Rightarrow> Inr (v # vs))"

subsection \<open>\<^verbatim>\<open>refine_array_1d\<close>\<close>

text \<open>
  \<^verbatim>\<open>
  def refine_array_1d(breaks, N):
      """Refine a 1D array by inserting N points between each pair of original values."""
      refined = np.concatenate([np.linspace(breaks[i], breaks[i+1], N+1)[:-1]
                                for i in range(len(breaks)-1)])
      return np.append(refined, breaks[-1])  # Add the last point
  \<close>
  \<^verbatim>\<open>range(len(breaks)-1)\<close> is empty for \<^verbatim>\<open>len(breaks) \<le> 1\<close>, so the indices
  \<^verbatim>\<open>i\<close> and \<^verbatim>\<open>i+1\<close> are always in range; the slice \<^verbatim>\<open>[:-1]\<close> drops the last sample.
\<close>

definition refine_array_1d :: "real list \<Rightarrow> int \<Rightarrow> error + real list" where
  "refine_array_1d breaks N =
     (case comprehension
             (map (\<lambda>i. case linspace (breaks ! i) (breaks ! (i + 1)) (N + 1) of
                          Inl e \<Rightarrow> Inl e
                        | Inr samples \<Rightarrow> Inr (butlast samples))
                  [0 ..< length breaks - 1]) of
        Inl e \<Rightarrow> Inl e
      | Inr pieces \<Rightarrow>
          (case concatenate pieces of
             Inl e \<Rightarrow> Inl e
           | Inr refined \<Rightarrow>
               (case getitem breaks (- 1) of
                  Inl e \<Rightarrow> Inl e
                | Inr b \<Rightarrow> Inr (refined @ [b]))))"

subsection \<open>\<^verbatim>\<open>plot_solutions\<close>\<close>

text \<open>
  The discrete space \<^verbatim>\<open>Vh\<close> is read only through \<^verbatim>\<open>Vh.spaces[d].breaks\<close>.
\<close>

record space_1d =
  breaks :: "real list"

record tensor_space =
  spaces :: "space_1d list"

text \<open>
  What the function hands to the three \<^verbatim>\<open>contourf\<close> calls: the grid
  \<^verbatim>\<open>np.meshgrid(eta1, eta2, indexing='ij')\<close> and the arrays \<^verbatim>\<open>ex\<close>, \<^verbatim>\<open>num\<close> and
  \<^verbatim>\<open>err\<close>. Rendering itself (Matplotlib) is not modelled.
\<close>

record figure =
  grid_x :: "real list list"
  grid_y :: "real list list"
  panel_exact :: "real list list"
  panel_numerical :: "real list list"
  panel_error :: "real list list"

type_synonym field = "real \<Rightarrow> real \<Rightarrow> real"

text \<open>
  \<^verbatim>\<open>
  def plot_solutions(Vh, uh, ue, N=10):
      eta1 = refine_array_1d(Vh.spaces[0].breaks, N)
      eta2 = refine_array_1d(Vh.spaces[1].breaks, N)
      num = np.array([[uh(e1, e2) for e2 in eta2] for e1 in eta1])
      ex = np.array([[phi_exact(e1, e2) for e2 in eta2] for e1 in eta1])
      err = num - ex
      xx, yy = np.meshgrid(eta1, eta2, indexing='ij')
      ...
  \<close>
  \<^verbatim>\<open>phi_exact\<close> is neither a parameter nor a local of the function: Python looks it up
  in the module's globals each time the inner comprehension evaluates its element, and
  raises \<^verbatim>\<open>NameError\<close> when the name is unbound. The first argument of the model is
  that global binding at the time of the call (\<open>None\<close>: unbound).
\<close>

definition plot_solutions ::
  "field option \<Rightarrow> tensor_space \<Rightarrow> field \<Rightarrow> field \<Rightarrow> int \<Rightarrow> error + figure" where
  "plot_solutions phi_exact Vh uh ue N =
     (case getitem (spaces Vh) 0 of
        Inl e \<Rightarrow> Inl e
      | Inr s0 \<Rightarrow>
     (case refine_array_1d (breaks s0) N of
        Inl e \<Rightarrow> Inl e
      | Inr eta1 \<Rightarrow>
     (case getitem (spaces Vh) 1 of
        Inl e \<Rightarrow> Inl e
      | Inr s1 \<Rightarrow>
     (case refine_array_1d (breaks s1) N of
        Inl e \<Rightarrow> Inl e
      | Inr eta2 \<Rightarrow>
     (let num = map (\<lambda>e1. map (\<lambda>e2. uh e1 e2) eta2) eta1 in
     (case (if eta1 = [] \<or> eta2 = [] then Inr (map (\<lambda>e1. []) eta1)
            else (case phi_exact of
                    None \<Rightarrow> Inl NameError
                  | Some g \<Rightarrow> Inr (map (\<lambda>e1. map (\<lambda>e2. g e1 e2) eta2) eta1))) of
        Inl e \<Rightarrow> Inl e
      | Inr ex \<Rightarrow>
     (let err = map2 (map2 (\<lambda>a b. a - b)) num ex
      in Inr \<lparr>grid_x = map (\<lambda>e1. map (\<lambda>e2. e1) eta2) eta1,
              grid_y = map (\<lambda>e1. map (\<lambda>e2. e2) eta2) eta1,
              panel_exact = ex,
              panel_numerical = num,
              panel_error = err\<rparr>)))))))"

text \<open>
  The points one interval \<^verbatim>\<open>[a, b]\<close> contributes for \<^verbatim>\<open>N \<ge> 1\<close>: what is left of
  \<^verbatim>\<open>np.linspace(a, b, N+1)\<close> after the slice \<^verbatim>\<open>[:-1]\<close>. It is used to state and prove
  the properties of \<open>refine_array_1d\<close>, not to define it.
\<close>

definition samples_between :: "real \<Rightarrow> real \<Rightarrow> int \<Rightarrow> real list" where
  "samples_between a b N = map (\<lambda>j. a + real j * ((b - a) / real_of_int N)) [0 ..< nat N]"

section \<open>The notebook as a program on the kernel's global namespace\<close>

text \<open>
  The cells are straight-line Python: imports, assignments, two function definitions,
  \<^verbatim>\<open>print\<close> calls and the final call of \<^verbatim>\<open>plot_solutions\<close>. All cells share the
  kernel's global namespace. The model threads that namespace through the statements.

  The objects themselves belong to the libraries. An object is represented by the
  expression that created it, and the objects it was created from are referred to by
  \<open>Ref k\<close>: the object of the \<open>k\<close>-th binding the kernel made (counted from 0).
  Library calls are taken to return; the only exception of the model is the
  \<^verbatim>\<open>NameError\<close> of an unbound name.
\<close>

datatype val =
    IntV int
  | StrV string
  | NoneV
  | Ref nat
  | ListV "val list"
  | TupleV "val list"
  | Imported string string
  | Module string
  | Builtin string
  | FunctionV string "string list"
  | CallV val "val list" "(string \<times> val) list"
  | AttrV val string
  | ItemV val nat
  | BinOpV string val val

text \<open>
  The namespace, newest binding first. A name that is bound again shadows its older
  binding; the older object stays in the list, as it stays alive in the objects built
  from it.
\<close>

type_synonym globals = "(string \<times> val) list"

fun lookup :: "globals \<Rightarrow> string \<Rightarrow> nat option" where
  "lookup [] n = None"
| "lookup ((m, v) # g) n = (if m = n then Some (length g) else lookup g n)"

definition deref :: "globals \<Rightarrow> nat \<Rightarrow> val" where
  "deref g k = rev (map snd g) ! k"

definition bound_name :: "globals \<Rightarrow> nat \<Rightarrow> string" where
  "bound_name g k = rev (map fst g) ! k"

subsection \<open>Expressions\<close>

text \<open>
  An expression is evaluated in the namespace. It yields the global names it read, in
  the order Python reads them, and its value or the exception that stopped it.
\<close>

type_synonym expr = "globals \<Rightarrow> string list \<times> (error + val)"

definition const :: "val \<Rightarrow> expr" where
  "const v g = ([], Inr v)"

definition var :: "string \<Rightarrow> expr" where
  "var n g =
     (case lookup g n of None \<Rightarrow> ([n], Inl NameError) | Some k \<Rightarrow> ([n], Inr (Ref k)))"

fun eval_all :: "expr list \<Rightarrow> globals \<Rightarrow> string list \<times> (error + val list)" where
  "eval_all [] g = ([], Inr [])"
| "eval_all (e # es) g =
     (case e g of
        (rs, Inl err) \<Rightarrow> (rs, Inl err)
      | (rs, Inr v) \<Rightarrow>
          (case eval_all es g of
             (rs', Inl err) \<Rightarrow> (rs @ rs', Inl err)
           | (rs', Inr vs) \<Rightarrow> (rs @ rs', Inr (v # vs))))"

definition list_expr :: "expr list \<Rightarrow> expr" where
  "list_expr es g =
     (case eval_all es g of
        (rs, Inl err) \<Rightarrow> (rs, Inl err)
      | (rs, Inr vs) \<Rightarrow> (rs, Inr (ListV vs)))"

definition tuple_expr :: "expr list \<Rightarrow> expr" where
  "tuple_expr es g =
     (case eval_all es g of
        (rs, Inl err) \<Rightarrow> (rs, Inl err)
      | (rs, Inr vs) \<Rightarrow> (rs, Inr (TupleV vs)))"

definition attr :: "expr \<Rightarrow> string \<Rightarrow> expr" where
  "attr e a g =
     (case e g of
        (rs, Inl err) \<Rightarrow> (rs, Inl err)
      | (rs, Inr v) \<Rightarrow> (rs, Inr (AttrV v a)))"

definition binop :: "string \<Rightarrow> expr \<Rightarrow> expr \<Rightarrow> expr" where
  "binop opr l r g =
     (case l g of
        (rs, Inl err) \<Rightarrow> (rs, Inl err)
      | (rs, Inr a) \<Rightarrow>
          (case r g of
             (rs', Inl err) \<Rightarrow> (rs @ rs', Inl err)
           | (rs', Inr b) \<Rightarrow> (rs @ rs', Inr (BinOpV opr a b))))"

text \<open>
  A function defined in the notebook is bound to \<open>FunctionV name globals\<close>, where
  \<open>globals\<close> are the global names its body reads. Calling it runs the body, which
  raises \<^verbatim>\<open>NameError\<close> at the first of these names that is unbound at the time of the
  call. Everything else that is called is a library object.
\<close>

fun body_globals :: "globals \<Rightarrow> val \<Rightarrow> string list" where
  "body_globals g (Ref k) = (case deref g k of FunctionV nm names \<Rightarrow> names | _ \<Rightarrow> [])"
| "body_globals g c = []"

text \<open>
  A call evaluates the callee, then the positional arguments, then the keyword
  arguments, from left to right.
\<close>

definition call :: "expr \<Rightarrow> expr list \<Rightarrow> (string \<times> expr) list \<Rightarrow> expr" where
  "call f as kws g =
     (case f g of
        (rs, Inl err) \<Rightarrow> (rs, Inl err)
      | (rs, Inr c) \<Rightarrow>
          (case eval_all (as @ map snd kws) g of
             (rs', Inl err) \<Rightarrow> (rs @ rs', Inl err)
           | (rs', Inr vs) \<Rightarrow>
               (if list_all (\<lambda>n. lookup g n \<noteq> None) (body_globals g c)
                then (rs @ rs',
                      Inr (CallV c (take (length as) vs)
                             (zip (map fst kws) (drop (length as) vs))))
                else (rs @ rs', Inl NameError))))"

subsection \<open>Statements\<close>

text \<open>
  Besides the namespace the state keeps a history: for every assignment and expression
  statement that was executed, the names it bound and the global names its expression
  read. Imports and function definitions bind names and read none.
\<close>

record notebook_state =
  bindings :: globals
  history :: "(string list \<times> string list) list"

type_synonym stmt = "notebook_state \<Rightarrow> notebook_state \<times> error option"

definition import_from :: "string \<Rightarrow> string list \<Rightarrow> stmt" where
  "import_from m ns s =
     (s\<lparr>bindings := rev (map (\<lambda>n. (n, Imported m n)) ns) @ bindings s\<rparr>, None)"

definition import_as :: "string \<Rightarrow> string \<Rightarrow> stmt" where
  "import_as m n s = (s\<lparr>bindings := (n, Module m) # bindings s\<rparr>, None)"

definition def_function :: "string \<Rightarrow> string list \<Rightarrow> stmt" where
  "def_function nm names s = (s\<lparr>bindings := (nm, FunctionV nm names) # bindings s\<rparr>, None)"

definition assign :: "string \<Rightarrow> expr \<Rightarrow> stmt" where
  "assign t e s =
     (case e (bindings s) of
        (rs, Inl err) \<Rightarrow> (s\<lparr>history := history s @ [([], rs)]\<rparr>, Some err)
      | (rs, Inr v) \<Rightarrow>
          (\<lparr>bindings = (t, v) # bindings s, history = history s @ [([t], rs)]\<rparr>, None))"

text \<open>
  \<^verbatim>\<open>t1, t2 = e\<close>: a list or tuple of the right length is taken apart, one of another
  length raises \<^verbatim>\<open>ValueError\<close>; any other object is iterated, which the model
  writes as its items.
\<close>

definition unpack :: "nat \<Rightarrow> val \<Rightarrow> error + val list" where
  "unpack n v =
     (case v of
        ListV vs \<Rightarrow> if length vs = n then Inr vs else Inl ValueError
      | TupleV vs \<Rightarrow> if length vs = n then Inr vs else Inl ValueError
      | _ \<Rightarrow> Inr (map (ItemV v) [0 ..< n]))"

definition assign_unpack :: "string list \<Rightarrow> expr \<Rightarrow> stmt" where
  "assign_unpack ts e s =
     (case e (bindings s) of
        (rs, Inl err) \<Rightarrow> (s\<lparr>history := history s @ [([], rs)]\<rparr>, Some err)
      | (rs, Inr v) \<Rightarrow>
          (case unpack (length ts) v of
             Inl err \<Rightarrow> (s\<lparr>history := history s @ [([], rs)]\<rparr>, Some err)
           | Inr vs \<Rightarrow>
               (\<lparr>bindings = rev (zip ts vs) @ bindings s,
                 history = history s @ [(ts, rs)]\<rparr>, None)))"

definition expr_stmt :: "expr \<Rightarrow> stmt" where
  "expr_stmt e s =
     (case e (bindings s) of
        (rs, Inl err) \<Rightarrow> (s\<lparr>history := history s @ [([], rs)]\<rparr>, Some err)
      | (rs, Inr v) \<Rightarrow> (s\<lparr>history := history s @ [([], rs)]\<rparr>, None))"

text \<open>Statements run in order; the first exception stops the run.\<close>

fun run :: "stmt list \<Rightarrow> notebook_state \<Rightarrow> notebook_state \<times> error option" where
  "run [] s = (s, None)"
| "run (c # cs) s =
     (case c s of (s', Some err) \<Rightarrow> (s', Some err) | (s', None) \<Rightarrow> run cs s')"

subsection \<open>The cells\<close>

text \<open>
  The code cells in the order of the notebook. The comprehension
  \<^verbatim>\<open>[element_of(V, name=i) for i in ['u', 'v']]\<close> is written out as its two elements.
\<close>

definition cell_formal_model :: "stmt list" where
  "cell_formal_model =
    [import_from ''sympde.expr'' [''BilinearForm'', ''LinearForm'', ''integral''],
     import_from ''sympde.expr'' [''find'', ''EssentialBC'', ''Norm'', ''SemiNorm''],
     import_from ''sympde.topology'' [''ScalarFunctionSpace'', ''Square'', ''element_of''],
     import_from ''sympde.calculus'' [''grad'', ''dot''],
     import_as ''matplotlib.pyplot'' ''plt'',
     import_as ''numpy'' ''np'',
     import_from ''mpl_toolkits.axes_grid1'' [''make_axes_locatable''],
     import_from ''sympy'' [''pi'', ''sin'', ''lambdify''],
     assign ''domain'' (call (var ''Square'') [] []),
     assign ''V'' (call (var ''ScalarFunctionSpace'') [const (StrV ''V''), var ''domain''] []),
     assign_unpack [''x'', ''y''] (attr (var ''domain'') ''coordinates''),
     assign_unpack [''u'', ''v'']
       (list_expr
          [call (var ''element_of'') [var ''V''] [(''name'', const (StrV ''u''))],
           call (var ''element_of'') [var ''V''] [(''name'', const (StrV ''v''))]]),
     assign ''a''
       (call (var ''BilinearForm'')
          [tuple_expr [var ''u'', var ''v''],
           call (var ''integral'')
             [var ''domain'',
              call (var ''dot'')
                [call (var ''grad'') [var ''v''] [], call (var ''grad'') [var ''u''] []] []] []]
          []),
     assign ''f''
       (binop ''*''
          (binop ''*''
             (binop ''*'' (const (IntV 2)) (binop ''**'' (var ''pi'') (const (IntV 2))))
             (call (var ''sin'') [binop ''*'' (var ''pi'') (var ''x'')] []))
          (call (var ''sin'') [binop ''*'' (var ''pi'') (var ''y'')] [])),
     assign ''l''
       (call (var ''LinearForm'')
          [var ''v'',
           call (var ''integral'') [var ''domain'', binop ''*'' (var ''f'') (var ''v'')] []]
          []),
     assign ''bc''
       (list_expr
          [call (var ''EssentialBC'')
             [var ''u'', const (IntV 0), attr (var ''domain'') ''boundary''] []]),
     assign ''equation''
       (call (var ''find'') [var ''u'']
          [(''forall'', var ''v''),
           (''lhs'', call (var ''a'') [var ''u'', var ''v''] []),
           (''rhs'', call (var ''l'') [var ''v''] []),
           (''bc'', var ''bc'')])]"

definition cell_import_discretize :: "stmt list" where
  "cell_import_discretize = [import_from ''psydac.api.discretization'' [''discretize'']]"

definition cell_parameters :: "stmt list" where
  "cell_parameters =
    [assign ''degree'' (list_expr [const (IntV 3), const (IntV 3)]),
     assign ''ncells'' (list_expr [const (IntV 16), const (IntV 16)])]"

definition cell_discretization :: "stmt list" where
  "cell_discretization =
    [assign ''domain_h''
       (call (var ''discretize'') [var ''domain'']
          [(''ncells'', var ''ncells''), (''comm'', const NoneV)]),
     assign ''Vh''
       (call (var ''discretize'') [var ''V'', var ''domain_h''] [(''degree'', var ''degree'')]),
     assign ''equation_h''
       (call (var ''discretize'')
          [var ''equation'', var ''domain_h'', list_expr [var ''Vh'', var ''Vh'']] [])]"

definition cell_solve :: "stmt list" where
  "cell_solve = [assign ''uh'' (call (attr (var ''equation_h'') ''solve'') [] [])]"

definition cell_l2_norm :: "stmt list" where
  "cell_l2_norm =
    [assign ''ue''
       (binop ''*'' (call (var ''sin'') [binop ''*'' (var ''pi'') (var ''x'')] [])
                    (call (var ''sin'') [binop ''*'' (var ''pi'') (var ''y'')] [])),
     assign ''u'' (call (var ''element_of'') [var ''V''] [(''name'', const (StrV ''u''))]),
     assign ''l2norm''
       (call (var ''Norm'') [binop ''-'' (var ''u'') (var ''ue''), var ''domain'']
          [(''kind'', const (StrV ''l2''))]),
     expr_stmt (call (const (Builtin ''print'')) [var ''l2norm''] []),
     assign ''l2norm_h''
       (call (var ''discretize'') [var ''l2norm'', var ''domain_h'', var ''Vh''] []),
     assign ''l2_error'' (call (attr (var ''l2norm_h'') ''assemble'') [] [(''u'', var ''uh'')]),
     expr_stmt (call (const (Builtin ''print'')) [var ''l2_error''] [])]"

definition cell_h1_seminorm :: "stmt list" where
  "cell_h1_seminorm =
    [assign ''h1norm''
       (call (var ''SemiNorm'') [binop ''-'' (var ''u'') (var ''ue''), var ''domain'']
          [(''kind'', const (StrV ''h1''))]),
     assign ''h1norm_h''
       (call (var ''discretize'') [var ''h1norm'', var ''domain_h'', var ''Vh''] []),
     assign ''h1_error'' (call (attr (var ''h1norm_h'') ''assemble'') [] [(''u'', var ''uh'')]),
     expr_stmt (call (const (Builtin ''print'')) [var ''h1_error''] [])]"

definition cell_h1_norm :: "stmt list" where
  "cell_h1_norm =
    [assign ''h1norm''
       (call (var ''Norm'') [binop ''-'' (var ''u'') (var ''ue''), var ''domain'']
          [(''kind'', const (StrV ''h1''))]),
     assign ''h1norm_h''
       (call (var ''discretize'') [var ''h1norm'', var ''domain_h'', var ''Vh''] []),
     assign ''h1_error'' (call (attr (var ''h1norm_h'') ''assemble'') [] [(''u'', var ''uh'')]),
     expr_stmt (call (const (Builtin ''print'')) [var ''h1_error''] [])]"

text \<open>
  The visualization cell. The body of \<^verbatim>\<open>refine_array_1d\<close> reads the global
  \<^verbatim>\<open>np\<close>; the body of \<^verbatim>\<open>plot_solutions\<close> reads, in this order,
  \<^verbatim>\<open>refine_array_1d\<close>, \<^verbatim>\<open>np\<close>, \<^verbatim>\<open>phi_exact\<close>, \<^verbatim>\<open>plt\<close> and
  \<^verbatim>\<open>make_axes_locatable\<close>.
\<close>

definition cell_visualization :: "stmt list" where
  "cell_visualization =
    [import_as ''numpy'' ''np'',
     import_as ''matplotlib.pyplot'' ''plt'',
     import_from ''mpl_toolkits.axes_grid1'' [''make_axes_locatable''],
     def_function ''refine_array_1d'' [''np''],
     def_function ''plot_solutions''
       [''refine_array_1d'', ''np'', ''phi_exact'', ''plt'', ''make_axes_locatable''],
     assign ''ue''
       (call (var ''lambdify'')
          [tuple_expr [var ''x'', var ''y''], var ''u'', const (StrV ''numpy'')] []),
     expr_stmt
       (call (var ''plot_solutions'') [var ''Vh'', var ''uh'', var ''ue'']
          [(''N'', const (IntV 10))])]"

definition notebook :: "stmt list" where
  "notebook = cell_formal_model @ cell_import_discretize @ cell_parameters
     @ cell_discretization @ cell_solve @ cell_l2_norm @ cell_h1_seminorm @ cell_h1_norm
     @ cell_visualization"

definition fresh_kernel :: notebook_state where
  "fresh_kernel = \<lparr>bindings = [], history = []\<rparr>"

subsection \<open>Who reads what\<close>




text \<open>
  The state in which the run of the whole notebook on a fresh kernel ends: its namespace
  and its history.
\<close>

definition final_namespace :: globals where
  "final_namespace = bindings (fst (run notebook fresh_kernel))"


section \<open>Properties of \<open>refine_array_1d\<close>\<close>

subsection \<open>Auxiliary facts\<close>


lemma comprehension_Inr: "comprehension (map (\<lambda>i. Inr (f i)) is) = Inr (map f is)"
  by (induction "is") simp_all

lemma getitem_last: "xs \<noteq> [] \<Longrightarrow> getitem xs (- 1) = Inr (last xs)"
  by (cases xs rule: rev_cases) (simp_all add: getitem_def nth_append)




lemma length_samples_between [simp]: "length (samples_between a b N) = nat N"
  by (simp add: samples_between_def)





lemma refine_array_1d_nonempty: "refine_array_1d bs N = Inr ys \<Longrightarrow> ys \<noteq> []"
  by (auto simp: refine_array_1d_def split: sum.splits)

subsection \<open>Inputs that raise\<close>

text \<open>
  Fewer than two breaks leave \<^verbatim>\<open>np.concatenate\<close> with an empty list of arrays, and
  \<open>N < -1\<close> asks \<^verbatim>\<open>np.linspace\<close> for a negative number of samples: both raise
  \<^verbatim>\<open>ValueError\<close>.
\<close>

lemma refine_array_1d_short:
  assumes "length bs \<le> 1"
  shows "refine_array_1d bs N = Inl ValueError"
proof -
  have "[0 ..< length bs - 1] = []" using assms by simp
  then show ?thesis by (simp add: refine_array_1d_def concatenate_def)
qed

lemma comprehension_Inl:
  "rs \<noteq> [] \<Longrightarrow> comprehension (map (\<lambda>i. Inl e) rs) = Inl e"
  by (cases rs) simp_all

lemma refine_array_1d_negative:
  assumes "2 \<le> length bs" and "N < - 1"
  shows "refine_array_1d bs N = Inl ValueError"
proof -
  have ne: "[0 ..< length bs - 1] \<noteq> []" using assms(1) by auto
  have "linspace a b (N + 1) = Inl ValueError" for a b
    using assms(2) by (simp add: linspace_def)
  moreover have "comprehension (map (\<lambda>i. (Inl ValueError :: error + real list))
                                     [0 ..< length bs - 1]) = Inl ValueError"
    by (rule comprehension_Inl [OF ne])
  ultimately show ?thesis
    unfolding refine_array_1d_def by simp
qed

subsection \<open>The refined grid\<close>

text \<open>
  Claim C1. ``For every breakpoint array of length \<open>k \<ge> 2\<close> with strictly increasing
  entries and every \<open>N \<ge> 1\<close>, \<^verbatim>\<open>refine_array_1d(breaks, N)\<close> returns exactly
  \<open>k + (k-1)*N\<close> points: \<open>N\<close> equally spaced interior points are inserted between
  each pair of consecutive breaks.'' This is what the docstring of the function says
  (``inserting N points between each pair of original values''), and not what the
  function computes: \<^verbatim>\<open>np.linspace(a, b, N+1)[:-1]\<close> keeps \<open>a\<close> and \<open>N - 1\<close>
  interior points. For the breaks \<open>0, 1, 3\<close> and \<open>N = 2\<close> the result has one point
  inside each interval and 5 points in all, where the claim has 7.
\<close>

theorem refine_array_1d_inserts_fewer_points:
  "refine_array_1d [0, 1, 3] 2 = Inr [0, 1 / 2, 1, 2, 3]
   \<and> length [0, 1 / 2, 1, 2, 3 :: real] = (length [0, 1, 3 :: real] - 1) * 2 + 1
   \<and> length [0, 1 / 2, 1, 2, 3 :: real]
       \<noteq> length [0, 1, 3 :: real] + (length [0, 1, 3 :: real] - 1) * 2"
  by (simp add: refine_array_1d_def linspace_def concatenate_def getitem_def upt_rec)



text \<open>
  Claim C9. For \<open>N = 0\<close> and every breakpoint array of length \<open>k \<ge> 2\<close>,
  \<^verbatim>\<open>refine_array_1d(breaks, 0)\<close> returns the one-element array that holds the last
  breakpoint \<^verbatim>\<open>breaks[-1]\<close>; the other breakpoints are dropped, the original array
  is not returned.
\<close>

theorem refine_array_1d_zero:
  assumes "2 \<le> length bs"
  shows "refine_array_1d bs 0 = Inr [last bs] \<and> refine_array_1d bs 0 \<noteq> Inr bs"
proof -
  have ne: "bs \<noteq> []" "[0 ..< length bs - 1] \<noteq> []" using assms by auto
  have "linspace a b (0 + 1) = Inr [a]" for a b by (simp add: linspace_def)
  then have "refine_array_1d bs 0 = Inr [last bs]"
    unfolding refine_array_1d_def using ne
    by (simp add: comprehension_Inr concatenate_def getitem_last)
  moreover have "[last bs] \<noteq> bs" using assms by (cases bs) auto
  ultimately show ?thesis by simp
qed

theorem refine_array_1d_zero_witness:
  "refine_array_1d [0, 1, 3] 0 = Inr [3] \<and> refine_array_1d [0, 1, 3] 0 \<noteq> Inr [0, 1, 3]"
  using refine_array_1d_zero [of "[0, 1, 3]"] by simp

section \<open>The run of the notebook\<close>

text \<open>
  A reference stays valid when the namespace grows: bindings are only ever added in
  front, and a name that is found refers to a binding of that name.
\<close>

lemma deref_extend: "k < length g \<Longrightarrow> deref (ext @ g) k = deref g k"
  by (simp add: deref_def nth_append)

lemma bound_name_extend: "k < length g \<Longrightarrow> bound_name (ext @ g) k = bound_name g k"
  by (simp add: bound_name_def nth_append)

lemma lookup_Some:
  "lookup g n = Some k \<Longrightarrow> k < length g \<and> bound_name g k = n"
proof (induction g)
  case Nil
  then show ?case by simp
next
  case (Cons p g)
  obtain m v where p: "p = (m, v)" by (cases p)
  show ?case
  proof (cases "m = n")
    case True
    with Cons.prems p have "k = length g" by simp
    with True p show ?thesis by (simp add: bound_name_def nth_append)
  next
    case False
    with Cons.prems p have "lookup g n = Some k" by simp
    then have "k < length g \<and> bound_name g k = n" by (rule Cons.IH)
    then show ?thesis using bound_name_extend [of k g "[p]"] by simp
  qed
qed

text \<open>
  The state and the outcome of running all cells on a fresh kernel, computed from the
  definitions. The run ends in the last statement, the call of \<^verbatim>\<open>plot_solutions\<close>,
  with \<^verbatim>\<open>NameError\<close>.
\<close>

lemma run_notebook:
  "run notebook fresh_kernel =
     (\<lparr>bindings =
          [(''ue'',
            CallV (Ref 17) [TupleV [Ref 20, Ref 21], Ref 37, StrV ''numpy''] []),
           (''plot_solutions'',
            FunctionV ''plot_solutions''
             [''refine_array_1d'', ''np'', ''phi_exact'', ''plt'',
              ''make_axes_locatable'']),
           (''refine_array_1d'', FunctionV ''refine_array_1d'' [''np'']),
           (''make_axes_locatable'',
            Imported ''mpl_toolkits.axes_grid1'' ''make_axes_locatable''),
           (''plt'', Module ''matplotlib.pyplot''), (''np'', Module ''numpy''),
           (''h1_error'',
            CallV (AttrV (Ref 45) ''assemble'') [] [(''u'', Ref 35)]),
           (''h1norm_h'', CallV (Ref 29) [Ref 44, Ref 32, Ref 33] []),
           (''h1norm'',
            CallV (Ref 5) [BinOpV ''-'' (Ref 37) (Ref 36), Ref 18]
             [(''kind'', StrV ''h1'')]),
           (''h1_error'',
            CallV (AttrV (Ref 42) ''assemble'') [] [(''u'', Ref 35)]),
           (''h1norm_h'', CallV (Ref 29) [Ref 41, Ref 32, Ref 33] []),
           (''h1norm'',
            CallV (Ref 6) [BinOpV ''-'' (Ref 37) (Ref 36), Ref 18]
             [(''kind'', StrV ''h1'')]),
           (''l2_error'',
            CallV (AttrV (Ref 39) ''assemble'') [] [(''u'', Ref 35)]),
           (''l2norm_h'', CallV (Ref 29) [Ref 38, Ref 32, Ref 33] []),
           (''l2norm'',
            CallV (Ref 5) [BinOpV ''-'' (Ref 37) (Ref 36), Ref 18]
             [(''kind'', StrV ''l2'')]),
           (''u'', CallV (Ref 9) [Ref 19] [(''name'', StrV ''u'')]),
           (''ue'',
            BinOpV ''*'' (CallV (Ref 16) [BinOpV ''*'' (Ref 15) (Ref 20)] [])
             (CallV (Ref 16) [BinOpV ''*'' (Ref 15) (Ref 21)] [])),
           (''uh'', CallV (AttrV (Ref 34) ''solve'') [] []),
           (''equation_h'',
            CallV (Ref 29) [Ref 28, Ref 32, ListV [Ref 33, Ref 33]] []),
           (''Vh'', CallV (Ref 29) [Ref 19, Ref 32] [(''degree'', Ref 30)]),
           (''domain_h'',
            CallV (Ref 29) [Ref 18] [(''ncells'', Ref 31), (''comm'', NoneV)]),
           (''ncells'', ListV [IntV 16, IntV 16]),
           (''degree'', ListV [IntV 3, IntV 3]),
           (''discretize'',
            Imported ''psydac.api.discretization'' ''discretize''),
           (''equation'',
            CallV (Ref 3) [Ref 22]
             [(''forall'', Ref 23),
              (''lhs'', CallV (Ref 24) [Ref 22, Ref 23] []),
              (''rhs'', CallV (Ref 26) [Ref 23] []), (''bc'', Ref 27)]),
           (''bc'',
            ListV
             [CallV (Ref 4) [Ref 22, IntV 0, AttrV (Ref 18) ''boundary''] []]),
           (''l'',
            CallV (Ref 1)
             [Ref 23, CallV (Ref 2) [Ref 18, BinOpV ''*'' (Ref 25) (Ref 23)] []]
             []),
           (''f'',
            BinOpV ''*''
             (BinOpV ''*''
               (BinOpV ''*'' (IntV 2) (BinOpV ''**'' (Ref 15) (IntV 2)))
               (CallV (Ref 16) [BinOpV ''*'' (Ref 15) (Ref 20)] []))
             (CallV (Ref 16) [BinOpV ''*'' (Ref 15) (Ref 21)] [])),
           (''a'',
            CallV (Ref 0)
             [TupleV [Ref 22, Ref 23],
              CallV (Ref 2)
               [Ref 18,
                CallV (Ref 11)
                 [CallV (Ref 10) [Ref 23] [], CallV (Ref 10) [Ref 22] []] []]
               []]
             []),
           (''v'', CallV (Ref 9) [Ref 19] [(''name'', StrV ''v'')]),
           (''u'', CallV (Ref 9) [Ref 19] [(''name'', StrV ''u'')]),
           (''y'', ItemV (AttrV (Ref 18) ''coordinates'') 1),
           (''x'', ItemV (AttrV (Ref 18) ''coordinates'') 0),
           (''V'', CallV (Ref 7) [StrV ''V'', Ref 18] []),
           (''domain'', CallV (Ref 8) [] []),
           (''lambdify'', Imported ''sympy'' ''lambdify''),
           (''sin'', Imported ''sympy'' ''sin''),
           (''pi'', Imported ''sympy'' ''pi''),
           (''make_axes_locatable'',
            Imported ''mpl_toolkits.axes_grid1'' ''make_axes_locatable''),
           (''np'', Module ''numpy''), (''plt'', Module ''matplotlib.pyplot''),
           (''dot'', Imported ''sympde.calculus'' ''dot''),
           (''grad'', Imported ''sympde.calculus'' ''grad''),
           (''element_of'', Imported ''sympde.topology'' ''element_of''),
           (''Square'', Imported ''sympde.topology'' ''Square''),
           (''ScalarFunctionSpace'',
            Imported ''sympde.topology'' ''ScalarFunctionSpace''),
           (''SemiNorm'', Imported ''sympde.expr'' ''SemiNorm''),
           (''Norm'', Imported ''sympde.expr'' ''Norm''),
           (''EssentialBC'', Imported ''sympde.expr'' ''EssentialBC''),
           (''find'', Imported ''sympde.expr'' ''find''),
           (''integral'', Imported ''sympde.expr'' ''integral''),
           (''LinearForm'', Imported ''sympde.expr'' ''LinearForm''),
           (''BilinearForm'', Imported ''sympde.expr'' ''BilinearForm'')],
          history =
            [([''domain''], [''Square'']),
             ([''V''], [''ScalarFunctionSpace'', ''domain'']),
             ([''x'', ''y''], [''domain'']),
             ([''u'', ''v''], [''element_of'', ''V'', ''element_of'', ''V'']),
             ([''a''],
              [''BilinearForm'', ''u'', ''v'', ''integral'', ''domain'', ''dot'',
               ''grad'', ''v'', ''grad'', ''u'']),
             ([''f''], [''pi'', ''sin'', ''pi'', ''x'', ''sin'', ''pi'', ''y'']),
             ([''l''],
              [''LinearForm'', ''v'', ''integral'', ''domain'', ''f'', ''v'']),
             ([''bc''], [''EssentialBC'', ''u'', ''domain'']),
             ([''equation''],
              [''find'', ''u'', ''v'', ''a'', ''u'', ''v'', ''l'', ''v'',
               ''bc'']),
             ([''degree''], []), ([''ncells''], []),
             ([''domain_h''], [''discretize'', ''domain'', ''ncells'']),
             ([''Vh''], [''discretize'', ''V'', ''domain_h'', ''degree'']),
             ([''equation_h''],
              [''discretize'', ''equation'', ''domain_h'', ''Vh'', ''Vh'']),
             ([''uh''], [''equation_h'']),
             ([''ue''], [''sin'', ''pi'', ''x'', ''sin'', ''pi'', ''y'']),
             ([''u''], [''element_of'', ''V'']),
             ([''l2norm''], [''Norm'', ''u'', ''ue'', ''domain'']),
             ([], [''l2norm'']),
             ([''l2norm_h''],
              [''discretize'', ''l2norm'', ''domain_h'', ''Vh'']),
             ([''l2_error''], [''l2norm_h'', ''uh'']), ([], [''l2_error'']),
             ([''h1norm''], [''SemiNorm'', ''u'', ''ue'', ''domain'']),
             ([''h1norm_h''],
              [''discretize'', ''h1norm'', ''domain_h'', ''Vh'']),
             ([''h1_error''], [''h1norm_h'', ''uh'']), ([], [''h1_error'']),
             ([''h1norm''], [''Norm'', ''u'', ''ue'', ''domain'']),
             ([''h1norm_h''],
              [''discretize'', ''h1norm'', ''domain_h'', ''Vh'']),
             ([''h1_error''], [''h1norm_h'', ''uh'']), ([], [''h1_error'']),
             ([''ue''], [''lambdify'', ''x'', ''y'', ''u'']),
             ([], [''plot_solutions'', ''Vh'', ''uh'', ''ue''])]\<rparr>,
       Some NameError)"
  by code_simp






lemma final_namespace_phi_exact: "lookup final_namespace ''phi_exact'' = None"
  unfolding final_namespace_def run_notebook by code_simp


lemma run_notebook_raises: "snd (run notebook fresh_kernel) = Some NameError"
  unfolding run_notebook by simp

section \<open>Properties of \<open>plot_solutions\<close>\<close>

lemma plot_solutions_unbound: "plot_solutions None Vh uh ue N \<noteq> Inr fig"
  by (auto simp: plot_solutions_def Let_def split: sum.splits dest: refine_array_1d_nonempty)

lemma plot_solutions_ignores_ue:
  "plot_solutions phi Vh uh ue N = plot_solutions phi Vh uh ue' N"
  by (simp add: plot_solutions_def)

text \<open>
  Claim C2. ``\<^verbatim>\<open>plot_solutions(Vh, uh, ue, N)\<close> evaluates the numerical solution
  \<^verbatim>\<open>uh\<close> and the exact-solution callable \<^verbatim>\<open>ue\<close> it receives at every point of
  the refined tensor grid, and computes the difference numerical minus exact.'' This is
  what the docstring of the function promises for its parameter \<^verbatim>\<open>ue\<close>. The body
  never reads \<^verbatim>\<open>ue\<close>: it calls the global \<^verbatim>\<open>phi_exact\<close>, which no cell of the
  notebook binds. So the run of the notebook ends in the call with \<^verbatim>\<open>NameError\<close>;
  with \<^verbatim>\<open>phi_exact\<close> unbound the function returns no figure for any arguments, and
  on a grid of two by two points it raises \<^verbatim>\<open>NameError\<close> whatever \<^verbatim>\<open>uh\<close> and
  \<^verbatim>\<open>ue\<close> are. Were \<^verbatim>\<open>phi_exact\<close> bound, the panels would show that global
  function and its difference to \<^verbatim>\<open>uh\<close>, still not \<^verbatim>\<open>ue\<close>.
\<close>

theorem plot_solutions_raises_NameError:
  "lookup final_namespace ''phi_exact'' = None
   \<and> snd (run notebook fresh_kernel) = Some NameError
   \<and> (\<forall>Vh uh ue N fig. plot_solutions None Vh uh ue N \<noteq> Inr fig)
   \<and> plot_solutions None \<lparr>spaces = [\<lparr>breaks = [0, 1]\<rparr>, \<lparr>breaks = [0, 1]\<rparr>]\<rparr> uh ue 1
       = Inl NameError
   \<and> plot_solutions (Some phi) \<lparr>spaces = [\<lparr>breaks = [0, 1]\<rparr>, \<lparr>breaks = [0, 1]\<rparr>]\<rparr> uh ue 1
       = Inr \<lparr>grid_x = [[0, 0], [1, 1]], grid_y = [[0, 1], [0, 1]],
              panel_exact = [[phi 0 0, phi 0 1], [phi 1 0, phi 1 1]],
              panel_numerical = [[uh 0 0, uh 0 1], [uh 1 0, uh 1 1]],
              panel_error = [[uh 0 0 - phi 0 0, uh 0 1 - phi 0 1],
                             [uh 1 0 - phi 1 0, uh 1 1 - phi 1 1]]\<rparr>"
proof -
  have "refine_array_1d [0, 1] 1 = Inr [0, 1]"
    by (simp add: refine_array_1d_def linspace_def concatenate_def getitem_def upt_rec)
  then have
    "plot_solutions None \<lparr>spaces = [\<lparr>breaks = [0, 1]\<rparr>, \<lparr>breaks = [0, 1]\<rparr>]\<rparr> uh ue 1
       = Inl NameError"
    "plot_solutions (Some phi) \<lparr>spaces = [\<lparr>breaks = [0, 1]\<rparr>, \<lparr>breaks = [0, 1]\<rparr>]\<rparr> uh ue 1
       = Inr \<lparr>grid_x = [[0, 0], [1, 1]], grid_y = [[0, 1], [0, 1]],
              panel_exact = [[phi 0 0, phi 0 1], [phi 1 0, phi 1 1]],
              panel_numerical = [[uh 0 0, uh 0 1], [uh 1 0, uh 1 1]],
              panel_error = [[uh 0 0 - phi 0 0, uh 0 1 - phi 0 1],
                             [uh 1 0 - phi 1 0, uh 1 1 - phi 1 1]]\<rparr>"
    by (simp_all add: plot_solutions_def getitem_def)
  then show ?thesis
    using final_namespace_phi_exact run_notebook_raises plot_solutions_unbound by blast
qed

section \<open>Properties of the notebook's data flow\<close>




end
